theory Spec2Isabelle
  imports Complex_Main "HOL-Library.Sublist"
begin

section \<open>Common vocabulary of the pages\<close>

text \<open>
  Every page of the storefront is a React component whose handlers read the form state,
  call the hosted data-access client (\<^verbatim>\<open>blink.db.<collection>.list/create/update\<close>),
  and report through toasts, navigation and the console.  A handler is embedded as a
  function from the component state and the contents of the remote collection to the new
  state, the new contents and the ordered list of things it did.

  A time stamp is the time value of a JavaScript \<^verbatim>\<open>Date\<close> in milliseconds, and the
  ISO-8601 text that the code stores for it is identified with that time value.
  JavaScript numbers are a type parameter \<open>'n\<close> wherever a handler computes with them
  and writes the result (the booking total); the dashboard, which only adds amounts and
  compares the sums, takes them as \<open>real\<close>.
\<close>

datatype variant = Default | Destructive

datatype event =
    Call string string
  | Toast string string variant
  | Navigate string
  | ConsoleError string
  | ConsoleLog string string string

datatype exn = DbFailure | Error string | RangeError

text \<open>
  Modelled from the spec: the data-access client is an external hosted backend "offering
  list/create/update/delete over named collections with where/orderBy/limit options".
  A collection is the list of its records.  Whether the remote call is accepted is not
  decided by this repository, so each call takes the outcome as a parameter: an accepted
  \<^verbatim>\<open>create\<close> adds the record, an accepted \<^verbatim>\<open>list\<close> returns the records that satisfy
  the \<^verbatim>\<open>where\<close> clause, an accepted \<^verbatim>\<open>update\<close> overwrites fields of the records
  with the given id, and a rejected call throws and leaves the collection as it was.
\<close>

definition db_create :: "bool \<Rightarrow> 'a \<Rightarrow> 'a list \<Rightarrow> exn + 'a list" where
  "db_create ok r coll = (if ok then Inr (coll @ [r]) else Inl DbFailure)"

definition db_list :: "bool \<Rightarrow> ('a \<Rightarrow> bool) \<Rightarrow> 'a list \<Rightarrow> exn + 'a list" where
  "db_list ok wh coll = (if ok then Inr (filter wh coll) else Inl DbFailure)"

definition db_update :: "bool \<Rightarrow> ('a \<Rightarrow> bool) \<Rightarrow> ('a \<Rightarrow> 'a) \<Rightarrow> 'a list \<Rightarrow> exn + 'a list" where
  "db_update ok has_id write coll =
     (if ok then Inr (map (\<lambda>r. if has_id r then write r else r) coll) else Inl DbFailure)"

record user =
  u_id :: string
  email :: string
  displayName :: "string option"

section \<open>AdminSetup.tsx\<close>

record admin_user =
  user_id :: string
  role :: string

record admin_setup =
  adminCode :: string
  isLoading :: bool
  hasAdmins :: bool
  checkingAdmins :: bool

definition ADMIN_SETUP_CODE :: string where
  "ADMIN_SETUP_CODE = ''BIKERIDE2024''"

text \<open>The effect run once when the page mounts.\<close>

definition checkExistingAdmins ::
  "bool \<Rightarrow> admin_setup \<Rightarrow> admin_user list \<Rightarrow> admin_setup \<times> event list" where
  "checkExistingAdmins list_ok st admin_users =
     (case db_list list_ok (\<lambda>_. True) admin_users of
        Inr admins \<Rightarrow>
          (st\<lparr>hasAdmins := (length admins > 0), checkingAdmins := False\<rparr>,
           [Call ''admin_users'' ''list''])
      | Inl e \<Rightarrow>
          (st\<lparr>checkingAdmins := False\<rparr>,
           [Call ''admin_users'' ''list'', ConsoleError ''Error checking admins:'']))"

definition handleSetupAdmin ::
  "bool \<Rightarrow> user \<Rightarrow> admin_setup \<Rightarrow> admin_user list
     \<Rightarrow> admin_setup \<times> admin_user list \<times> event list" where
  "handleSetupAdmin create_ok usr st admin_users =
     (if adminCode st \<noteq> ADMIN_SETUP_CODE then
        (st, admin_users,
         [Toast ''Invalid Code'' ''Please enter the correct admin setup code.'' Destructive])
      else
        (case db_create create_ok \<lparr>user_id = u_id usr, role = ''admin''\<rparr> admin_users of
           Inr admin_users' \<Rightarrow>
             (st\<lparr>isLoading := False\<rparr>, admin_users',
              [Call ''admin_users'' ''create'',
               Toast ''Admin Access Granted!'' ''You now have admin privileges.'' Default,
               Navigate ''/admin''])
         | Inl e \<Rightarrow>
             (st\<lparr>isLoading := False\<rparr>, admin_users,
              [Call ''admin_users'' ''create'',
               ConsoleError ''Error setting up admin:'',
               Toast ''Setup Failed'' ''Failed to set up admin access. Please try again.''
                 Destructive])))"

definition handleBecomeAdmin ::
  "bool \<Rightarrow> bool \<Rightarrow> user \<Rightarrow> admin_setup \<Rightarrow> admin_user list
     \<Rightarrow> admin_setup \<times> admin_user list \<times> event list" where
  "handleBecomeAdmin list_ok create_ok usr st admin_users =
     (case db_list list_ok (\<lambda>a. user_id a = u_id usr) admin_users of
        Inl e \<Rightarrow>
          (st\<lparr>isLoading := False\<rparr>, admin_users,
           [Call ''admin_users'' ''list'',
            ConsoleError ''Error becoming admin:'',
            Toast ''Access Denied'' ''Unable to grant admin access. Contact existing admin.''
              Destructive])
      | Inr existingAdmin \<Rightarrow>
          if length existingAdmin > 0 then
            (st\<lparr>isLoading := False\<rparr>, admin_users,
             [Call ''admin_users'' ''list'',
              Toast ''Already Admin'' ''You already have admin privileges.'' Default,
              Navigate ''/admin''])
          else
            (case db_create create_ok \<lparr>user_id = u_id usr, role = ''admin''\<rparr> admin_users of
               Inr admin_users' \<Rightarrow>
                 (st\<lparr>isLoading := False\<rparr>, admin_users',
                  [Call ''admin_users'' ''list'',
                   Call ''admin_users'' ''create'',
                   Toast ''Admin Access Granted!'' ''You now have admin privileges.'' Default,
                   Navigate ''/admin''])
             | Inl e \<Rightarrow>
                 (st\<lparr>isLoading := False\<rparr>, admin_users,
                  [Call ''admin_users'' ''list'',
                   Call ''admin_users'' ''create'',
                   ConsoleError ''Error becoming admin:'',
                   Toast ''Access Denied''
                     ''Unable to grant admin access. Contact existing admin.'' Destructive])))"

text \<open>What the page renders: which of the two actions the signed-in user can reach.\<close>

datatype admin_setup_view = Spinner | SetupForm | RequestAdminAccess

definition AdminSetup :: "admin_setup \<Rightarrow> admin_setup_view" where
  "AdminSetup st =
     (if checkingAdmins st then Spinner
      else if \<not> hasAdmins st then SetupForm
      else RequestAdminAccess)"

definition navigations :: "event list \<Rightarrow> string list" where
  "navigations tr = concat (map (\<lambda>e. case e of Navigate p \<Rightarrow> [p] | _ \<Rightarrow> []) tr)"

definition toasts :: "event list \<Rightarrow> event list" where
  "toasts tr = filter (\<lambda>e. case e of Toast _ _ _ \<Rightarrow> True | _ \<Rightarrow> False) tr"

definition calls :: "string \<Rightarrow> string \<Rightarrow> event list \<Rightarrow> nat" where
  "calls coll meth tr = length (filter (\<lambda>e. e = Call coll meth) tr)"

definition console_errors :: "event list \<Rightarrow> nat" where
  "console_errors tr = length (filter (\<lambda>e. case e of ConsoleError _ \<Rightarrow> True | _ \<Rightarrow> False) tr)"

section \<open>JavaScript dates\<close>

text \<open>
  A \<^verbatim>\<open>Date\<close> holds a time value in milliseconds or is invalid (NaN).  The getters and
  setters follow ECMA-262: they take the local time \<open>LocalTime t\<close>, put the changed
  field back with MakeTime/MakeDay/MakeDate, return to UTC with \<open>UTC\<close> and clip the
  range.  The zone is the parameter \<open>LocalTZA\<close> of ECMA-262: \<open>LocalTZA t True\<close> is the
  offset in force at the UTC time \<open>t\<close>, and \<open>LocalTZA t False\<close> the offset by which the
  local time \<open>t\<close> is read; across a daylight-saving switch the two differ.  The
  calendar enters only through \<open>firstOfMonth\<close>, the day number of the first day of
  the month that holds a local time; MakeDay counts the day of the month from there.
  Time values are whole numbers of milliseconds; the double arithmetic of the setters is
  exact on every value that \<open>TimeClip\<close> lets through, and what it rounds is beyond
  the range and becomes an invalid date either way.
\<close>

datatype date = InvalidDate | TimeValue int

definition msPerHour :: int where
  "msPerHour = 3600000"

definition msPerDay :: int where
  "msPerDay = 86400000"

definition Day :: "int \<Rightarrow> int" where
  "Day t = t div msPerDay"

definition TimeWithinDay :: "int \<Rightarrow> int" where
  "TimeWithinDay t = t mod msPerDay"

definition HourFromTime :: "int \<Rightarrow> int" where
  "HourFromTime t = (t div msPerHour) mod 24"

definition TimeClip :: "int \<Rightarrow> date" where
  "TimeClip t = (if \<bar>t\<bar> > 8640000000000000 then InvalidDate else TimeValue t)"

definition LocalTime :: "(int \<Rightarrow> bool \<Rightarrow> int) \<Rightarrow> int \<Rightarrow> int" where
  "LocalTime LocalTZA t = t + LocalTZA t True"

definition UTC :: "(int \<Rightarrow> bool \<Rightarrow> int) \<Rightarrow> int \<Rightarrow> int" where
  "UTC LocalTZA t = t - LocalTZA t False"

definition getHours :: "(int \<Rightarrow> bool \<Rightarrow> int) \<Rightarrow> date \<Rightarrow> int option" where
  "getHours LocalTZA d =
     (case d of
        InvalidDate \<Rightarrow> None
      | TimeValue t \<Rightarrow> Some (HourFromTime (LocalTime LocalTZA t)))"

definition setHours :: "(int \<Rightarrow> bool \<Rightarrow> int) \<Rightarrow> date \<Rightarrow> int option \<Rightarrow> date" where
  "setHours LocalTZA d hour =
     (case (d, hour) of
        (TimeValue t, Some h) \<Rightarrow>
          (let tl = LocalTime LocalTZA t
           in TimeClip (UTC LocalTZA (Day tl * msPerDay + (h * msPerHour + tl mod msPerHour))))
      | _ \<Rightarrow> InvalidDate)"

definition getDate :: "(int \<Rightarrow> int) \<Rightarrow> (int \<Rightarrow> bool \<Rightarrow> int) \<Rightarrow> date \<Rightarrow> int option" where
  "getDate firstOfMonth LocalTZA d =
     (case d of
        InvalidDate \<Rightarrow> None
      | TimeValue t \<Rightarrow>
          Some (Day (LocalTime LocalTZA t) - firstOfMonth (LocalTime LocalTZA t) + 1))"

definition setDate ::
  "(int \<Rightarrow> int) \<Rightarrow> (int \<Rightarrow> bool \<Rightarrow> int) \<Rightarrow> date \<Rightarrow> int option \<Rightarrow> date" where
  "setDate firstOfMonth LocalTZA d dt =
     (case (d, dt) of
        (TimeValue t, Some n) \<Rightarrow>
          (let tl = LocalTime LocalTZA t
           in TimeClip
                (UTC LocalTZA ((firstOfMonth tl + n - 1) * msPerDay + TimeWithinDay tl)))
      | _ \<Rightarrow> InvalidDate)"

definition toISOString :: "date \<Rightarrow> exn + int" where
  "toISOString d = (case d of InvalidDate \<Rightarrow> Inl RangeError | TimeValue t \<Rightarrow> Inr t)"

section \<open>BookingPage.tsx\<close>

text \<open>
  The type \<open>'n\<close> stands for the JavaScript numbers (IEEE doubles, with NaN and the
  infinities); their product is the parameter \<open>product\<close> of the page's environment.
\<close>

record 'n bike =
  bike_id :: string
  bike_name :: string
  bike_type :: string
  description :: string
  hourlyRate :: 'n
  dailyRate :: 'n
  imageUrl :: string
  isAvailable :: int

text \<open>
  The object handed to \<^verbatim>\<open>bookings.create\<close> (\<open>new_booking\<close>), and the booking as the
  pages read it back (\<open>booking\<close>, the \<^verbatim>\<open>Booking\<close> interface of BookingManagement.tsx
  with the \<open>updatedAt\<close> that the handlers write).

  Modelled from the spec: the repository never sets \<open>createdAt\<close>; the stored record
  has "timestamps" and "optional delivery/return status and timestamps", so the backend
  stamps \<open>createdAt\<close> on creation and the optional fields start absent.
\<close>

record 'n new_booking =
  booking_id :: string
  userId :: string
  bikeId :: string
  bookingType :: string
  startDate :: int
  endDate :: int
  totalAmount :: 'n
  status :: string
  customerName :: string
  customerEmail :: string
  customerPhone :: string
  booking_notes :: string

record 'n booking = "'n new_booking" +
  createdAt :: int
  updatedAt :: "int option"
  bikeNumber :: "string option"
  deliveryStatus :: "string option"
  returnStatus :: "string option"
  deliveredAt :: "int option"
  returnedAt :: "int option"

definition stored :: "int \<Rightarrow> 'n new_booking \<Rightarrow> 'n booking" where
  "stored serverNow nb =
     new_booking.extend nb
       (booking.fields serverNow None None None None None None)"

datatype booking_type = instant | pre_reservation

datatype duration_type = hours | days

definition booking_type_text :: "booking_type \<Rightarrow> string" where
  "booking_type_text bt = (case bt of instant \<Rightarrow> ''instant'' | pre_reservation \<Rightarrow> ''pre_reservation'')"

text \<open>
  The \<open>duration\<close> state starts as 1 and is then \<^verbatim>\<open>parseInt(e.target.value)\<close>: a whole
  number, NaN for a field without digits, or an infinity for a digit string beyond the
  range of a double.
\<close>

datatype duration_value = NaN | PlusInfinity | MinusInfinity | Whole int

text \<open>
  \<^verbatim>\<open>end.getHours() + duration\<close> as the setter reads it: a whole number of hours (or
  days), or nothing finite.
\<close>

definition plus_duration :: "int option \<Rightarrow> duration_value \<Rightarrow> int option" where
  "plus_duration field d =
     (case (field, d) of (Some x, Whole n) \<Rightarrow> Some (x + n) | _ \<Rightarrow> None)"

text \<open>The component state (\<^verbatim>\<open>useState\<close>) that the handlers read.\<close>

record 'n booking_form =
  form_bike :: "'n bike option"
  form_user :: "user option"
  submitting :: bool
  form_bookingType :: booking_type
  form_startDate :: string
  form_startTime :: string
  duration :: duration_value
  durationType :: duration_type
  form_customerName :: string
  form_customerEmail :: string
  form_customerPhone :: string
  form_notes :: string

text \<open>
  What the handlers take from outside the component: the product of two numbers and the
  number that a duration is; the \<^verbatim>\<open>Date\<close> constructor on a string (read as local
  time), the zone and the calendar; the texts \<^verbatim>\<open>toISOString()\<close> (in UTC) and
  \<^verbatim>\<open>toTimeString()\<close> (in local time) of a time value; the generated booking id
  (\<^verbatim>\<open>booking_${Date.now()}_${random}\<close>), the outcome of the remote call and the
  backend's clock.
\<close>

record 'n booking_env =
  product :: "'n \<Rightarrow> 'n \<Rightarrow> 'n"
  number_of :: "duration_value \<Rightarrow> 'n"
  parseDate :: "string \<Rightarrow> date"
  LocalTZA :: "int \<Rightarrow> bool \<Rightarrow> int"
  firstOfMonth :: "int \<Rightarrow> int"
  isoString :: "int \<Rightarrow> string"
  timeString :: "int \<Rightarrow> string"
  newBookingId :: string
  create_accepted :: bool
  serverNow :: int

text \<open>
  The effect on \<open>bookingType\<close>, run at the time \<open>now\<close>:
  \<^verbatim>\<open>now.toISOString().split('T')[0]\<close> and \<^verbatim>\<open>now.toTimeString().slice(0, 5)\<close>.
\<close>

definition defaultStartEffect :: "'n booking_env \<Rightarrow> int \<Rightarrow> 'n booking_form \<Rightarrow> 'n booking_form" where
  "defaultStartEffect env now st =
     (if form_bookingType st = instant then
        st\<lparr>form_startDate := takeWhile (\<lambda>c. c \<noteq> CHR ''T'') (isoString env now),
           form_startTime := take 5 (timeString env now)\<rparr>
      else st)"

definition calculateTotal :: "'n booking_env \<Rightarrow> 'n booking_form \<Rightarrow> 'n" where
  "calculateTotal env st =
     (case form_bike st of
        None \<Rightarrow> number_of env (Whole 0)
      | Some b \<Rightarrow>
          (let rate = (if durationType st = hours then hourlyRate b else dailyRate b)
           in product env rate (number_of env (duration st))))"

definition calculateEndDateTime :: "'n booking_env \<Rightarrow> 'n booking_form \<Rightarrow> date option" where
  "calculateEndDateTime env st =
     (if form_startDate st = [] \<or> form_startTime st = [] then None
      else
        (let start = parseDate env (form_startDate st @ ''T'' @ form_startTime st);
             end = start
         in Some
              (if durationType st = hours then
                 setHours (LocalTZA env) end
                   (plus_duration (getHours (LocalTZA env) end) (duration st))
               else
                 setDate (firstOfMonth env) (LocalTZA env) end
                   (plus_duration (getDate (firstOfMonth env) (LocalTZA env) end)
                      (duration st)))))"

text \<open>
  The \<^verbatim>\<open>try\<close> block of \<open>handleSubmit\<close> up to the arguments of the create call: a
  missing end time throws, and so does \<^verbatim>\<open>toISOString\<close> on an invalid date.
\<close>

definition createArguments ::
  "'n booking_env \<Rightarrow> 'n booking_form \<Rightarrow> 'n bike \<Rightarrow> user \<Rightarrow> exn + 'n new_booking" where
  "createArguments env st b u =
     (let startDateTime = parseDate env (form_startDate st @ ''T'' @ form_startTime st);
          endDateTime = calculateEndDateTime env st
      in case endDateTime of
           None \<Rightarrow> Inl (Error ''Invalid date/time selection'')
         | Some endDate' \<Rightarrow>
             (case toISOString startDateTime of
                Inl x \<Rightarrow> Inl x
              | Inr startISO \<Rightarrow>
                  (case toISOString endDate' of
                     Inl x \<Rightarrow> Inl x
                   | Inr endISO \<Rightarrow>
                       Inr \<lparr>booking_id = newBookingId env,
                            userId = u_id u,
                            bikeId = bike_id b,
                            bookingType = booking_type_text (form_bookingType st),
                            startDate = startISO,
                            endDate = endISO,
                            totalAmount = calculateTotal env st,
                            status = (if form_bookingType st = instant then ''approved''
                                      else ''pending''),
                            customerName = form_customerName st,
                            customerEmail = form_customerEmail st,
                            customerPhone = form_customerPhone st,
                            booking_notes = form_notes st\<rparr>)))"

definition bookingFailed :: "event list" where
  "bookingFailed =
     [ConsoleError ''Error creating booking:'',
      Toast ''Booking failed''
        ''There was an error processing your booking. Please try again.'' Destructive]"

definition handleSubmit ::
  "'n booking_env \<Rightarrow> 'n booking_form \<Rightarrow> 'n booking list
     \<Rightarrow> 'n booking_form \<times> 'n booking list \<times> event list" where
  "handleSubmit env st bookings =
     (case (form_bike st, form_user st) of
        (Some b, Some u) \<Rightarrow>
          (case createArguments env st b u of
             Inl e \<Rightarrow> (st\<lparr>submitting := False\<rparr>, bookings, bookingFailed)
           | Inr nb \<Rightarrow>
               (case db_create (create_accepted env) (stored (serverNow env) nb) bookings of
                  Inr bookings' \<Rightarrow>
                    (st\<lparr>submitting := False\<rparr>, bookings',
                     [Call ''bookings'' ''create'',
                      Toast ''Booking submitted!''
                        (if form_bookingType st = instant
                         then ''Your bike is ready for pickup!''
                         else ''Your booking request has been submitted for approval.'')
                        Default,
                      Navigate ''/my-rentals''])
                | Inl e \<Rightarrow>
                    (st\<lparr>submitting := False\<rparr>, bookings,
                     Call ''bookings'' ''create'' # bookingFailed)))
      | _ \<Rightarrow> (st, bookings, []))"

text \<open>
  The "Total" row of the booking summary: \<^verbatim>\<open>${calculateTotal().toFixed(2)}\<close>, with
  \<^verbatim>\<open>Number.prototype.toFixed\<close> as a parameter.
\<close>

definition summaryTotal :: "('n \<Rightarrow> nat \<Rightarrow> string) \<Rightarrow> 'n booking_env \<Rightarrow> 'n booking_form \<Rightarrow> string" where
  "summaryTotal toFixed env st = ''$'' @ toFixed (calculateTotal env st) 2"

section \<open>BrowseBikes (the catalog page)\<close>

text \<open>
  A string is the sequence of its code units.  \<^verbatim>\<open>String.prototype.toLowerCase\<close> (the
  Unicode case mapping) and \<^verbatim>\<open>localeCompare\<close> are parameters;
  \<^verbatim>\<open>String.prototype.includes\<close> is the test for a contiguous run of code units.  In
  this page a number only decides an order, through the sign of a difference, and is
  taken as a \<open>real\<close>.
\<close>

fun str_includes :: "string \<Rightarrow> string \<Rightarrow> bool" where
  "str_includes [] t = (t = [])"
| "str_includes (c # s) t = (prefix t (c # s) \<or> str_includes s t)"

text \<open>
  \<^verbatim>\<open>Array.prototype.sort\<close> with a comparator: the sort is stable, and an element stays
  before the ones it does not compare greater than.
\<close>

fun insert_by :: "('a \<Rightarrow> 'a \<Rightarrow> real) \<Rightarrow> 'a \<Rightarrow> 'a list \<Rightarrow> 'a list" where
  "insert_by cmp x [] = [x]"
| "insert_by cmp x (y # ys) = (if cmp x y \<le> 0 then x # y # ys else y # insert_by cmp x ys)"

fun array_sort :: "('a \<Rightarrow> 'a \<Rightarrow> real) \<Rightarrow> 'a list \<Rightarrow> 'a list" where
  "array_sort cmp [] = []"
| "array_sort cmp (x # xs) = insert_by cmp x (array_sort cmp xs)"

definition matchesSearch :: "(string \<Rightarrow> string) \<Rightarrow> string \<Rightarrow> 'n bike \<Rightarrow> bool" where
  "matchesSearch toLowerCase searchTerm b =
     (str_includes (toLowerCase (bike_name b)) (toLowerCase searchTerm)
      \<or> str_includes (toLowerCase (bike_type b)) (toLowerCase searchTerm)
      \<or> str_includes (toLowerCase (description b)) (toLowerCase searchTerm))"

definition compareBikes ::
  "(string \<Rightarrow> string \<Rightarrow> int) \<Rightarrow> string \<Rightarrow> real bike \<Rightarrow> real bike \<Rightarrow> real" where
  "compareBikes localeCompare sortBy a b =
     (if sortBy = ''price-low'' then hourlyRate a - hourlyRate b
      else if sortBy = ''price-high'' then hourlyRate b - hourlyRate a
      else if sortBy = ''type'' then of_int (localeCompare (bike_type a) (bike_type b))
      else of_int (localeCompare (bike_name a) (bike_name b)))"

text \<open>
  The filtering effect of the page.  It returns the \<open>bikes\<close> state and the new
  \<open>filteredBikes\<close>: \<^verbatim>\<open>sort\<close> works in place, so with no filter active it reorders the
  loaded array itself.
\<close>

definition filterBikes ::
  "(string \<Rightarrow> string) \<Rightarrow> (string \<Rightarrow> string \<Rightarrow> int) \<Rightarrow> real bike list
     \<Rightarrow> string \<Rightarrow> string \<Rightarrow> string \<Rightarrow> real bike list \<times> real bike list" where
  "filterBikes toLowerCase localeCompare bikes searchTerm selectedType sortBy =
     (let filtered = bikes;
          filtered = (if searchTerm \<noteq> []
                      then filter (matchesSearch toLowerCase searchTerm) filtered
                      else filtered);
          filtered = (if selectedType \<noteq> ''all''
                      then filter (\<lambda>b. toLowerCase (bike_type b) = toLowerCase selectedType)
                             filtered
                      else filtered);
          sorted = array_sort (compareBikes localeCompare sortBy) filtered
      in (if searchTerm = [] \<and> selectedType = ''all'' then sorted else bikes, sorted))"

section \<open>MyRentals and BookingManagement.tsx: loading the bookings\<close>

text \<open>
  A loaded booking carries the optional property \<^verbatim>\<open>bike\<close>: absent when the lookup
  threw, \<^verbatim>\<open>null\<close> when it found nothing, the first bike found otherwise.
\<close>

datatype 'n bike_property = Undefined | Null | Found "'n bike"

record 'n booking_with_bike = "'n booking" +
  bike :: "'n bike_property"

text \<open>
  Modelled from the spec: \<^verbatim>\<open>orderBy: { createdAt: 'desc' }\<close> is an option of the hosted
  backend's \<^verbatim>\<open>list\<close>; it returns the records latest first.
\<close>

definition orderBy_createdAt_desc :: "'n booking list \<Rightarrow> 'n booking list" where
  "orderBy_createdAt_desc bs = sort_key (\<lambda>b. - createdAt b) bs"

text \<open>The function mapped over the bookings: one bike lookup per booking, caught per call.\<close>

definition loadBike :: "('n booking \<Rightarrow> bool) \<Rightarrow> 'n bike list \<Rightarrow> 'n booking \<Rightarrow> 'n booking_with_bike \<times> event list" where
  "loadBike lookup_ok bikes b =
     (case db_list (lookup_ok b) (\<lambda>k. bike_id k = bikeId b) bikes of
        Inr found \<Rightarrow>
          (booking.extend b
             (booking_with_bike.fields (case found of [] \<Rightarrow> Null | k # _ \<Rightarrow> Found k)),
           [Call ''bikes'' ''list''])
      | Inl e \<Rightarrow>
          (booking.extend b (booking_with_bike.fields Undefined),
           [Call ''bikes'' ''list'', ConsoleError ''Error loading bike for booking:'']))"

record 'n my_rentals =
  rentals :: "'n booking_with_bike list"
  rentals_loading :: bool

definition MyRentals_loadBookings ::
  "bool \<Rightarrow> ('n booking \<Rightarrow> bool) \<Rightarrow> user \<Rightarrow> 'n my_rentals \<Rightarrow> 'n booking list \<Rightarrow> 'n bike list
     \<Rightarrow> 'n my_rentals \<times> event list" where
  "MyRentals_loadBookings list_ok lookup_ok usr st bookings bikes =
     (case db_list list_ok (\<lambda>b. userId b = u_id usr) bookings of
        Inr userBookings \<Rightarrow>
          (let bookingsWithBikes = map (loadBike lookup_ok bikes) (orderBy_createdAt_desc userBookings)
           in (st\<lparr>rentals := map fst bookingsWithBikes, rentals_loading := False\<rparr>,
               Call ''bookings'' ''list'' # concat (map snd bookingsWithBikes)))
      | Inl e \<Rightarrow>
          (st\<lparr>rentals_loading := False\<rparr>,
           [Call ''bookings'' ''list'', ConsoleError ''Error loading bookings:'']))"

text \<open>
  The card title of both booking lists, \<^verbatim>\<open>{booking.bike?.name || 'Unknown Bike'}\<close>, and
  the lists themselves as the titles of their cards.
\<close>

definition cardTitle :: "'n booking_with_bike \<Rightarrow> string" where
  "cardTitle b =
     (case bike b of
        Found k \<Rightarrow> (if bike_name k = [] then ''Unknown Bike'' else bike_name k)
      | _ \<Rightarrow> ''Unknown Bike'')"

datatype bookings_view = NoBookingsFound | Cards "string list"

definition MyRentals_BookingsList :: "'n booking_with_bike list \<Rightarrow> bookings_view" where
  "MyRentals_BookingsList bs = (if length bs = 0 then NoBookingsFound else Cards (map cardTitle bs))"

definition BookingManagement_BookingsList :: "'n booking_with_bike list \<Rightarrow> bookings_view" where
  "BookingManagement_BookingsList bs =
     (if length bs = 0 then NoBookingsFound else Cards (map cardTitle bs))"

section \<open>BookingManagement.tsx\<close>

record 'n booking_management =
  managed :: "'n booking_with_bike list"
  management_loading :: bool
  processingBookings :: "string set"
  selectedBooking :: "'n booking_with_bike option"
  bikeNumberInput :: string
  deliveryStatusInput :: string
  returnStatusInput :: string
  dialogOpen :: bool

text \<open>
  From outside the component: two readings of the clock (\<^verbatim>\<open>new Date().toISOString()\<close>
  for \<open>updatedAt\<close> and for the delivery or return stamp) and the outcomes of the
  remote calls.
\<close>

record 'n management_env =
  now_updated :: int
  now_stamp :: int
  update_accepted :: bool
  list_accepted :: bool
  lookup_accepted :: "'n booking \<Rightarrow> bool"

definition BookingManagement_loadBookings ::
  "'n management_env \<Rightarrow> 'n booking_management \<Rightarrow> 'n booking list \<Rightarrow> 'n bike list
     \<Rightarrow> 'n booking_management \<times> event list" where
  "BookingManagement_loadBookings env st bookings bikes =
     (case db_list (list_accepted env) (\<lambda>_. True) bookings of
        Inr allBookings \<Rightarrow>
          (let bookingsWithBikes =
                 map (loadBike (lookup_accepted env) bikes) (orderBy_createdAt_desc allBookings)
           in (st\<lparr>managed := map fst bookingsWithBikes, management_loading := False\<rparr>,
               Call ''bookings'' ''list'' # concat (map snd bookingsWithBikes)))
      | Inl e \<Rightarrow>
          (st\<lparr>management_loading := False\<rparr>,
           [Call ''bookings'' ''list'', ConsoleError ''Error loading bookings:'',
            Toast ''Error'' ''Failed to load bookings.'' Destructive]))"

datatype action = approve | reject | delivered | returned

definition action_text :: "action \<Rightarrow> string" where
  "action_text a =
     (case a of approve \<Rightarrow> ''approve'' | reject \<Rightarrow> ''reject''
      | delivered \<Rightarrow> ''delivered'' | returned \<Rightarrow> ''returned'')"

text \<open>How a template literal prints the bike's name and the bike number.\<close>

definition bike_name_text :: "'n booking_with_bike \<Rightarrow> string" where
  "bike_name_text b = (case bike b of Found k \<Rightarrow> bike_name k | _ \<Rightarrow> ''undefined'')"

definition bike_number_text :: "'n booking_with_bike \<Rightarrow> string" where
  "bike_number_text b = (case bikeNumber b of Some n \<Rightarrow> n | None \<Rightarrow> ''undefined'')"

definition sendNotifications :: "'n booking_with_bike \<Rightarrow> action \<Rightarrow> event list" where
  "sendNotifications b a =
     (let message =
        (case a of
           approve \<Rightarrow>
             ''Great news! Your bike rental for '' @ bike_name_text b @ '' has been approved. ''
             @ (case bikeNumber b of
                  Some n \<Rightarrow> (if n \<noteq> [] then ''Bike Number: '' @ n @ ''. '' else [])
                | None \<Rightarrow> [])
             @ ''Pickup details will be sent shortly.''
         | reject \<Rightarrow>
             ''We're sorry, but your bike rental request for '' @ bike_name_text b
             @ '' has been declined. Please contact us for more information.''
         | delivered \<Rightarrow>
             ''Your bike '' @ bike_name_text b @ '' ('' @ bike_number_text b
             @ '') has been delivered! Enjoy your ride and remember to return it on time.''
         | returned \<Rightarrow>
             ''Thank you for returning the bike '' @ bike_name_text b @ '' (''
             @ bike_number_text b @ ''). Your rental is now complete!'')
      in [ConsoleLog ''Sending WhatsApp to:'' (customerPhone b) message,
          ConsoleLog ''Sending Email to:'' (customerEmail b) message])"

text \<open>
  The object handed to \<^verbatim>\<open>bookings.update\<close>: a property that is absent leaves the stored
  field as it is (the spec's "direct field overwrite").
\<close>

record update_data =
  upd_updatedAt :: "int option"
  upd_status :: "string option"
  upd_deliveryStatus :: "string option"
  upd_deliveredAt :: "int option"
  upd_bikeNumber :: "string option"
  upd_returnStatus :: "string option"
  upd_returnedAt :: "int option"

definition overwrite :: "update_data \<Rightarrow> 'n booking \<Rightarrow> 'n booking" where
  "overwrite d b =
     b\<lparr>status := (case upd_status d of Some s \<Rightarrow> s | None \<Rightarrow> status b),
       updatedAt := (case upd_updatedAt d of Some t \<Rightarrow> Some t | None \<Rightarrow> updatedAt b),
       bikeNumber := (case upd_bikeNumber d of Some n \<Rightarrow> Some n | None \<Rightarrow> bikeNumber b),
       deliveryStatus :=
         (case upd_deliveryStatus d of Some s \<Rightarrow> Some s | None \<Rightarrow> deliveryStatus b),
       returnStatus := (case upd_returnStatus d of Some s \<Rightarrow> Some s | None \<Rightarrow> returnStatus b),
       deliveredAt := (case upd_deliveredAt d of Some t \<Rightarrow> Some t | None \<Rightarrow> deliveredAt b),
       returnedAt := (case upd_returnedAt d of Some t \<Rightarrow> Some t | None \<Rightarrow> returnedAt b)\<rparr>"

definition finish_processing :: "string \<Rightarrow> 'n booking_management \<Rightarrow> 'n booking_management" where
  "finish_processing bookingId st =
     st\<lparr>processingBookings := insert bookingId (processingBookings st) - {bookingId}\<rparr>"

definition handleBookingAction ::
  "'n management_env \<Rightarrow> string \<Rightarrow> action \<Rightarrow> 'n booking_management \<Rightarrow> 'n booking list \<Rightarrow> 'n bike list
     \<Rightarrow> 'n booking_management \<times> 'n booking list \<times> event list" where
  "handleBookingAction env bookingId a st bookings bikes =
     (let newStatus = (if a = approve then ''approved'' else ''rejected'')
      in case db_update (update_accepted env) (\<lambda>b. booking_id b = bookingId)
                (overwrite \<lparr>upd_updatedAt = Some (now_updated env), upd_status = Some newStatus,
                    upd_deliveryStatus = None, upd_deliveredAt = None, upd_bikeNumber = None,
                    upd_returnStatus = None, upd_returnedAt = None\<rparr>) bookings of
           Inr bookings' \<Rightarrow>
             (let notified = (case find (\<lambda>b. booking_id b = bookingId) (managed st) of
                                Some b \<Rightarrow> sendNotifications b a
                              | None \<Rightarrow> []);
                  reloaded = BookingManagement_loadBookings env st bookings' bikes
              in (finish_processing bookingId (fst reloaded), bookings',
                  Call ''bookings'' ''update'' # notified
                  @ [Toast ''Success''
                       (''Booking '' @ (if a = approve then ''approved'' else ''rejected'')
                        @ '' and notifications sent!'') Default]
                  @ snd reloaded))
         | Inl e \<Rightarrow>
             (finish_processing bookingId st, bookings,
              [Call ''bookings'' ''update'',
               ConsoleError (''Error '' @ action_text a @ ''ing booking:''),
               Toast ''Error'' (''Failed to '' @ action_text a @ '' booking.'') Destructive]))"

datatype update_type = delivery | return

definition update_type_text :: "update_type \<Rightarrow> string" where
  "update_type_text ty = (case ty of delivery \<Rightarrow> ''delivery'' | return \<Rightarrow> ''return'')"

text \<open>The \<open>updateData\<close> object that \<open>handleStatusUpdate\<close> builds.\<close>

definition statusUpdateData :: "'n management_env \<Rightarrow> update_type \<Rightarrow> 'n booking_management \<Rightarrow> update_data" where
  "statusUpdateData env ty st =
     (let updateData = \<lparr>upd_updatedAt = Some (now_updated env), upd_status = None,
                         upd_deliveryStatus = None, upd_deliveredAt = None,
                         upd_bikeNumber = None, upd_returnStatus = None,
                         upd_returnedAt = None\<rparr>
      in if ty = delivery then
           (let updateData = updateData\<lparr>upd_deliveryStatus := Some (deliveryStatusInput st)\<rparr>;
                updateData = (if deliveryStatusInput st = ''delivered''
                              then updateData\<lparr>upd_deliveredAt := Some (now_stamp env)\<rparr>
                              else updateData)
            in if bikeNumberInput st \<noteq> []
               then updateData\<lparr>upd_bikeNumber := Some (bikeNumberInput st)\<rparr>
               else updateData)
         else
           (let updateData = updateData\<lparr>upd_returnStatus := Some (returnStatusInput st)\<rparr>
            in if returnStatusInput st = ''returned''
               then updateData\<lparr>upd_returnedAt := Some (now_stamp env),
                              upd_status := Some ''completed''\<rparr>
               else updateData))"

definition handleStatusUpdate ::
  "'n management_env \<Rightarrow> update_type \<Rightarrow> 'n booking_management \<Rightarrow> 'n booking list \<Rightarrow> 'n bike list
     \<Rightarrow> 'n booking_management \<times> 'n booking list \<times> event list" where
  "handleStatusUpdate env ty st bookings bikes =
     (case selectedBooking st of
        None \<Rightarrow> (st, bookings, [])
      | Some sel \<Rightarrow>
          (case db_update (update_accepted env) (\<lambda>b. booking_id b = booking_id sel)
                  (overwrite (statusUpdateData env ty st)) bookings of
             Inr bookings' \<Rightarrow>
               (let notified =
                      (if (ty = delivery \<and> deliveryStatusInput st = ''delivered'')
                          \<or> (ty = return \<and> returnStatusInput st = ''returned'')
                       then sendNotifications sel (if ty = delivery then delivered else returned)
                       else []);
                    reloaded =
                      BookingManagement_loadBookings env (st\<lparr>dialogOpen := False\<rparr>) bookings' bikes
                in (finish_processing (booking_id sel) (fst reloaded), bookings',
                    Call ''bookings'' ''update'' # notified
                    @ [Toast ''Success''
                         ((if ty = delivery then ''Delivery'' else ''Return'')
                          @ '' status updated successfully!'') Default]
                    @ snd reloaded))
           | Inl e \<Rightarrow>
               (finish_processing (booking_id sel) st, bookings,
                [Call ''bookings'' ''update'',
                 ConsoleError (''Error updating '' @ update_type_text ty @ '' status:''),
                 Toast ''Error'' (''Failed to update '' @ update_type_text ty @ '' status.'')
                   Destructive])))"

definition openStatusDialog :: "'n booking_with_bike \<Rightarrow> 'n booking_management \<Rightarrow> 'n booking_management" where
  "openStatusDialog b st =
     st\<lparr>selectedBooking := Some b,
        bikeNumberInput := (case bikeNumber b of Some n \<Rightarrow> n | None \<Rightarrow> []),
        deliveryStatusInput :=
          (case deliveryStatus b of Some s \<Rightarrow> (if s = [] then ''pending'' else s)
           | None \<Rightarrow> ''pending''),
        returnStatusInput :=
          (case returnStatus b of Some s \<Rightarrow> (if s = [] then ''not_returned'' else s)
           | None \<Rightarrow> ''not_returned''),
        dialogOpen := True\<rparr>"

section \<open>AdminDashboard.tsx\<close>

record dashboard_stats =
  totalBikes :: nat
  availableBikes :: nat
  totalBookings :: nat
  pendingBookings :: nat
  totalRevenue :: real
  monthlyRevenue :: real

record dashboard =
  stats :: dashboard_stats
  dashboard_loading :: bool

text \<open>
  The current month and year (two readings of the clock) and the calendar getters
  \<^verbatim>\<open>getMonth\<close>, \<^verbatim>\<open>getFullYear\<close> of the local zone are parameters.
\<close>

record dashboard_env =
  bikes_accepted :: bool
  bookings_accepted :: bool
  getMonth :: "int \<Rightarrow> int"
  getFullYear :: "int \<Rightarrow> int"
  currentMonth :: int
  currentYear :: int

definition loadDashboardStats ::
  "dashboard_env \<Rightarrow> dashboard \<Rightarrow> 'n bike list \<Rightarrow> real booking list \<Rightarrow> dashboard \<times> event list" where
  "loadDashboardStats env st bikes bookings =
     (case db_list (bikes_accepted env) (\<lambda>_. True) bikes of
        Inl e \<Rightarrow>
          (st\<lparr>dashboard_loading := False\<rparr>,
           [Call ''bikes'' ''list'', ConsoleError ''Error loading dashboard stats:''])
      | Inr allBikes \<Rightarrow>
          (let available = filter (\<lambda>k. isAvailable k > 0) allBikes
           in case db_list (bookings_accepted env) (\<lambda>_. True) bookings of
                Inl e \<Rightarrow>
                  (st\<lparr>dashboard_loading := False\<rparr>,
                   [Call ''bikes'' ''list'', Call ''bookings'' ''list'',
                    ConsoleError ''Error loading dashboard stats:''])
              | Inr allBookings \<Rightarrow>
                  (let pending = filter (\<lambda>b. status b = ''pending'') allBookings;
                       total =
                         foldl (\<lambda>sum b. sum + totalAmount b) 0
                           (filter (\<lambda>b. status b = ''approved'' \<or> status b = ''completed'')
                              allBookings);
                       monthly =
                         foldl (\<lambda>sum b. sum + totalAmount b) 0
                           (filter
                              (\<lambda>b. getMonth env (createdAt b) = currentMonth env
                                   \<and> getFullYear env (createdAt b) = currentYear env
                                   \<and> (status b = ''approved'' \<or> status b = ''completed''))
                              allBookings)
                   in (st\<lparr>stats := \<lparr>totalBikes = length allBikes,
                                     availableBikes = length available,
                                     totalBookings = length allBookings,
                                     pendingBookings = length pending,
                                     totalRevenue = total,
                                     monthlyRevenue = monthly\<rparr>,
                          dashboard_loading := False\<rparr>,
                       [Call ''bikes'' ''list'', Call ''bookings'' ''list'']))))"

text \<open>The records a handler added to a collection.\<close>

definition created :: "'a list \<Rightarrow> 'a list \<Rightarrow> 'a list" where
  "created before after = drop (length before) after"

section \<open>Sample data\<close>

text \<open>
  Concrete inputs on which the theorems below are exercised.  The booking page is run on
  numbers that are a finite value or not finite at all (NaN, an infinity); the sample
  prices and durations are small whole numbers, whose double product is exact.
\<close>

definition sample_user :: user where
  "sample_user = \<lparr>u_id = ''u1'', email = ''ann@example.org'', displayName = Some ''Ann''\<rparr>"

definition sample_bike :: "real bike" where
  "sample_bike =
     \<lparr>bike_id = ''b1'', bike_name = ''City Cruiser'', bike_type = ''Mountain'',
      description = ''Comfortable commuter'', hourlyRate = 10, dailyRate = 50,
      imageUrl = ''cruiser.png'', isAvailable = 1\<rparr>"

definition sample_times :: "real option \<Rightarrow> real option \<Rightarrow> real option" where
  "sample_times a b = (case (a, b) of (Some x, Some y) \<Rightarrow> Some (x * y) | _ \<Rightarrow> None)"

definition sample_number_of :: "duration_value \<Rightarrow> real option" where
  "sample_number_of d = (case d of Whole n \<Rightarrow> Some (of_int n) | _ \<Rightarrow> None)"

definition sample_offer :: "real option bike" where
  "sample_offer =
     \<lparr>bike_id = ''b1'', bike_name = ''City Cruiser'', bike_type = ''Mountain'',
      description = ''Comfortable commuter'', hourlyRate = Some 10, dailyRate = Some 50,
      imageUrl = ''cruiser.png'', isAvailable = 1\<rparr>"

text \<open>A browser in UTC, on 1 May 2024 at 09:50.\<close>

definition sample_env :: "real option booking_env" where
  "sample_env =
     \<lparr>product = sample_times,
      number_of = sample_number_of,
      parseDate = (\<lambda>s. if s = ''2024-05-01T10:00'' then TimeValue 1714557600000
                        else InvalidDate),
      LocalTZA = (\<lambda>t isUTC. 0),
      firstOfMonth = (\<lambda>t. 19844),
      isoString = (\<lambda>t. if t = 1714557000000 then ''2024-05-01T09:50:00.000Z'' else []),
      timeString = (\<lambda>t. if t = 1714557000000
                          then ''09:50:00 GMT+0000 (Coordinated Universal Time)'' else []),
      newBookingId = ''booking_1714557000000_k3x9q2m1z'',
      create_accepted = True,
      serverNow = 1714557000000\<rparr>"

definition sample_form :: "real option booking_form" where
  "sample_form =
     \<lparr>form_bike = Some sample_offer, form_user = Some sample_user, submitting = False,
      form_bookingType = instant, form_startDate = ''2024-05-01'',
      form_startTime = ''10:00'', duration = Whole 2, durationType = hours,
      form_customerName = ''Ann'', form_customerEmail = ''ann@example.org'',
      form_customerPhone = ''555-0100'', form_notes = []\<rparr>"

definition sample_created :: "real option booking" where
  "sample_created =
     \<lparr>booking_id = ''booking_1714557000000_k3x9q2m1z'', userId = ''u1'', bikeId = ''b1'',
      bookingType = ''instant'', startDate = 1714557600000, endDate = 1714564800000,
      totalAmount = Some 20, status = ''approved'', customerName = ''Ann'',
      customerEmail = ''ann@example.org'', customerPhone = ''555-0100'', booking_notes = [],
      createdAt = 1714557000000, updatedAt = None, bikeNumber = None,
      deliveryStatus = None, returnStatus = None, deliveredAt = None, returnedAt = None\<rparr>"

text \<open>
  A browser five hours west of UTC with no daylight saving (Bogota), on 1 May 2024 at
  20:00 local time, which is 2 May 01:00 in UTC.
\<close>

definition sample_west_env :: "real option booking_env" where
  "sample_west_env =
     \<lparr>product = sample_times,
      number_of = sample_number_of,
      parseDate = (\<lambda>s. if s = ''2024-05-02T20:00'' then TimeValue 1714698000000
                        else if s = ''2024-05-01T20:00'' then TimeValue 1714611600000
                        else InvalidDate),
      LocalTZA = (\<lambda>t isUTC. - 18000000),
      firstOfMonth = (\<lambda>t. 19844),
      isoString = (\<lambda>t. if t = 1714611600000 then ''2024-05-02T01:00:00.000Z'' else []),
      timeString = (\<lambda>t. if t = 1714611600000
                          then ''20:00:00 GMT-0500 (Colombia Standard Time)'' else []),
      newBookingId = ''booking_1714611600000_p0o9i8u7y'',
      create_accepted = True,
      serverNow = 1714611600000\<rparr>"



text \<open>\<^verbatim>\<open>toLowerCase\<close> on ASCII text, where it folds the letters A to Z and nothing else.\<close>

definition sample_toLowerCase :: "string \<Rightarrow> string" where
  "sample_toLowerCase s =
     map (\<lambda>c. let n = (of_char c :: nat)
               in if 65 \<le> n \<and> n \<le> 90 then char_of (n + 32) else c) s"

definition sample_booking :: "real booking" where
  "sample_booking =
     \<lparr>booking_id = ''booking_1714557000000_k3x9q2m1z'', userId = ''u1'', bikeId = ''b1'',
      bookingType = ''instant'', startDate = 1714557600000, endDate = 1714564800000,
      totalAmount = 20, status = ''approved'', customerName = ''Ann'',
      customerEmail = ''ann@example.org'', customerPhone = ''555-0100'', booking_notes = [],
      createdAt = 1714557000000, updatedAt = None, bikeNumber = None,
      deliveryStatus = None, returnStatus = None, deliveredAt = None, returnedAt = None\<rparr>"

definition sample_selected :: "real booking_with_bike" where
  "sample_selected = booking.extend sample_booking (booking_with_bike.fields (Found sample_bike))"

definition sample_management :: "real booking_management" where
  "sample_management =
     \<lparr>managed = [sample_selected], management_loading = False, processingBookings = {},
      selectedBooking = Some sample_selected, bikeNumberInput = ''BK001'',
      deliveryStatusInput = ''delivered'', returnStatusInput = ''returned'',
      dialogOpen = True\<rparr>"

definition sample_management_env :: "real management_env" where
  "sample_management_env =
     \<lparr>now_updated = 1714600000000, now_stamp = 1714600000001, update_accepted = True,
      list_accepted = True, lookup_accepted = (\<lambda>b. True)\<rparr>"

definition sample_refund :: "real booking" where
  "sample_refund =
     sample_booking\<lparr>booking_id := ''booking_1712000000000_a1b2c3d4e'', bikeId := ''b0'',
       totalAmount := - 5, status := ''completed'', createdAt := 1712000000000\<rparr>"

definition sample_dashboard_env :: dashboard_env where
  "sample_dashboard_env =
     \<lparr>bikes_accepted = True, bookings_accepted = True,
      getMonth = (\<lambda>t. if t < 1714521600000 then 3 else 4),
      getFullYear = (\<lambda>t. 2024),
      currentMonth = 4, currentYear = 2024\<rparr>"

definition sample_dashboard :: dashboard where
  "sample_dashboard =
     \<lparr>stats = \<lparr>totalBikes = 0, availableBikes = 0, totalBookings = 0, pendingBookings = 0,
               totalRevenue = 0, monthlyRevenue = 0\<rparr>,
      dashboard_loading = True\<rparr>"

section \<open>Admin elevation\<close>

text \<open>
  C1.  Submitting the first-admin form issues the \<^verbatim>\<open>admin_users.create\<close> request for the
  current user exactly when the entered code equals the constant \<^verbatim>\<open>BIKERIDE2024\<close>, and
  the accepted request inserts the record \<open>(user.id, admin)\<close> and navigates to the admin
  dashboard.  For every other code nothing is inserted, nothing is requested, there is no
  navigation, and the only thing the handler does is show the destructive "Invalid Code"
  toast.  (A record is absent after a matching code only when the backend itself rejects
  the request.)
\<close>

theorem handleSetupAdmin_code_gate:
  assumes "handleSetupAdmin create_ok usr st admin_users = (st', admin_users', tr)"
  shows "((calls ''admin_users'' ''create'' tr = 1) = (adminCode st = ''BIKERIDE2024''))
    \<and> ((admin_users' \<noteq> admin_users) = (adminCode st = ''BIKERIDE2024'' \<and> create_ok))
    \<and> (adminCode st = ''BIKERIDE2024'' \<and> create_ok \<longrightarrow>
           admin_users' = admin_users @ [\<lparr>user_id = u_id usr, role = ''admin''\<rparr>]
           \<and> navigations tr = [''/admin''])
    \<and> (adminCode st \<noteq> ''BIKERIDE2024'' \<longrightarrow>
           admin_users' = admin_users \<and> st' = st \<and> navigations tr = []
           \<and> calls ''admin_users'' ''create'' tr = 0
           \<and> tr = [Toast ''Invalid Code'' ''Please enter the correct admin setup code.''
                     Destructive])"
  using assms
  by (auto simp: handleSetupAdmin_def ADMIN_SETUP_CODE_def db_create_def calls_def
      navigations_def split: if_splits)

theorem handleSetupAdmin_code_gate_witness:
  "handleSetupAdmin True \<lparr>u_id = ''u1'', email = ''a@b.c'', displayName = None\<rparr>
      \<lparr>adminCode = ''BIKERIDE2024'', isLoading = False, hasAdmins = False,
       checkingAdmins = False\<rparr> []
   = (\<lparr>adminCode = ''BIKERIDE2024'', isLoading = False, hasAdmins = False,
       checkingAdmins = False\<rparr>,
      [\<lparr>user_id = ''u1'', role = ''admin''\<rparr>],
      [Call ''admin_users'' ''create'',
       Toast ''Admin Access Granted!'' ''You now have admin privileges.'' Default,
       Navigate ''/admin''])
   \<and> calls ''admin_users'' ''create''
        [Call ''admin_users'' ''create'',
         Toast ''Admin Access Granted!'' ''You now have admin privileges.'' Default,
         Navigate ''/admin''] = 1"
proof -
  have run: "handleSetupAdmin True \<lparr>u_id = ''u1'', email = ''a@b.c'', displayName = None\<rparr>
      \<lparr>adminCode = ''BIKERIDE2024'', isLoading = False, hasAdmins = False,
       checkingAdmins = False\<rparr> []
   = (\<lparr>adminCode = ''BIKERIDE2024'', isLoading = False, hasAdmins = False,
       checkingAdmins = False\<rparr>,
      [\<lparr>user_id = ''u1'', role = ''admin''\<rparr>],
      [Call ''admin_users'' ''create'',
       Toast ''Admin Access Granted!'' ''You now have admin privileges.'' Default,
       Navigate ''/admin''])"
    by (simp add: handleSetupAdmin_def ADMIN_SETUP_CODE_def db_create_def)
  from handleSetupAdmin_code_gate [OF run] run show ?thesis by simp
qed

text \<open>
  C9.  Once an admin record exists, the page offers "Request Admin Access".  Its handler
  never looks at the setup code: whatever the code field holds, the outcome is the same.
  When the backend answers, a user who is not yet among the admins gets the record
  \<open>(user.id, admin)\<close> inserted and is sent to the admin dashboard, with no approval step
  in between; a user who already is an admin is only told so and sent to the dashboard.
  The collection changes exactly in the first case.
\<close>

theorem request_admin_access_self_elevates:
  assumes "admin_users \<noteq> []"
    and "handleBecomeAdmin list_ok create_ok usr st admin_users = (st', admin_users', tr)"
  shows "AdminSetup (fst (checkExistingAdmins True st0 admin_users)) = RequestAdminAccess
     \<and> snd (handleBecomeAdmin list_ok create_ok usr (st\<lparr>adminCode := code\<rparr>) admin_users)
         = (admin_users', tr)
     \<and> (list_ok \<and> create_ok \<and> (\<forall>a \<in> set admin_users. user_id a \<noteq> u_id usr) \<longrightarrow>
           admin_users' = admin_users @ [\<lparr>user_id = u_id usr, role = ''admin''\<rparr>]
           \<and> tr = [Call ''admin_users'' ''list'', Call ''admin_users'' ''create'',
                   Toast ''Admin Access Granted!'' ''You now have admin privileges.'' Default,
                   Navigate ''/admin''])
     \<and> (list_ok \<and> (\<exists>a \<in> set admin_users. user_id a = u_id usr) \<longrightarrow>
           admin_users' = admin_users
           \<and> tr = [Call ''admin_users'' ''list'',
                   Toast ''Already Admin'' ''You already have admin privileges.'' Default,
                   Navigate ''/admin''])
     \<and> (admin_users' \<noteq> admin_users) =
         (list_ok \<and> create_ok \<and> (\<forall>a \<in> set admin_users. user_id a \<noteq> u_id usr))"
proof -
  have view: "AdminSetup (fst (checkExistingAdmins True st0 admin_users)) = RequestAdminAccess"
    using assms(1) by (simp add: AdminSetup_def checkExistingAdmins_def db_list_def)
  have code: "snd (handleBecomeAdmin list_ok create_ok usr (st\<lparr>adminCode := code\<rparr>) admin_users)
      = snd (handleBecomeAdmin list_ok create_ok usr st admin_users)"
    by (simp add: handleBecomeAdmin_def db_list_def db_create_def)
  have none: "(filter (\<lambda>a. user_id a = u_id usr) admin_users = [])
      = (\<forall>a \<in> set admin_users. user_id a \<noteq> u_id usr)"
    by (simp add: filter_empty_conv)
  from assms(2) have rest:
    "(list_ok \<and> create_ok \<and> (\<forall>a \<in> set admin_users. user_id a \<noteq> u_id usr) \<longrightarrow>
           admin_users' = admin_users @ [\<lparr>user_id = u_id usr, role = ''admin''\<rparr>]
           \<and> tr = [Call ''admin_users'' ''list'', Call ''admin_users'' ''create'',
                   Toast ''Admin Access Granted!'' ''You now have admin privileges.'' Default,
                   Navigate ''/admin''])
     \<and> (list_ok \<and> (\<exists>a \<in> set admin_users. user_id a = u_id usr) \<longrightarrow>
           admin_users' = admin_users
           \<and> tr = [Call ''admin_users'' ''list'',
                   Toast ''Already Admin'' ''You already have admin privileges.'' Default,
                   Navigate ''/admin''])
     \<and> (admin_users' \<noteq> admin_users) =
         (list_ok \<and> create_ok \<and> (\<forall>a \<in> set admin_users. user_id a \<noteq> u_id usr))"
    by (auto simp: handleBecomeAdmin_def db_list_def db_create_def none
        split: if_splits)
  from view code rest assms(2) show ?thesis
    by simp
qed

theorem request_admin_access_self_elevates_witness:
  "AdminSetup (fst (checkExistingAdmins True
       \<lparr>adminCode = [], isLoading = False, hasAdmins = False, checkingAdmins = True\<rparr>
       [\<lparr>user_id = ''u0'', role = ''admin''\<rparr>])) = RequestAdminAccess
   \<and> fst (snd (handleBecomeAdmin True True sample_user
       \<lparr>adminCode = ''not the code'', isLoading = False, hasAdmins = True,
        checkingAdmins = False\<rparr>
       [\<lparr>user_id = ''u0'', role = ''admin''\<rparr>]))
     = [\<lparr>user_id = ''u0'', role = ''admin''\<rparr>, \<lparr>user_id = ''u1'', role = ''admin''\<rparr>]"
proof -
  have n: "[\<lparr>user_id = ''u0'', role = ''admin''\<rparr>] \<noteq> []"
    by simp
  obtain st' sto' tr where run: "handleBecomeAdmin True True sample_user
       \<lparr>adminCode = ''not the code'', isLoading = False, hasAdmins = True,
        checkingAdmins = False\<rparr>
       [\<lparr>user_id = ''u0'', role = ''admin''\<rparr>] = (st', sto', tr)"
    by (metis prod_cases3)
  have u: "u_id sample_user = ''u1''"
    by (simp add: sample_user_def)
  from request_admin_access_self_elevates [OF n run,
      of "\<lparr>adminCode = [], isLoading = False, hasAdmins = False, checkingAdmins = True\<rparr>"] u
  show ?thesis
    by (simp add: run)
qed

section \<open>Booking submission\<close>

lemma hour_decomposition:
  "Day t * msPerDay + (HourFromTime t * msPerHour + t mod msPerHour) = t"
proof -
  define q where "q = t div msPerHour"
  have d: "t div msPerDay = q div 24"
    unfolding q_def msPerDay_def msPerHour_def
    using zdiv_zmult2_eq [of 24 t 3600000] by simp
  have "q div 24 * msPerDay + q mod 24 * msPerHour = q * msPerHour"
    unfolding msPerDay_def msPerHour_def by presburger
  then have "q div 24 * msPerDay + (q mod 24 * msPerHour + t mod msPerHour) = q * msPerHour + t mod msPerHour"
    by simp
  also have "\<dots> = t" by (simp add: q_def)
  finally show ?thesis by (simp add: Day_def HourFromTime_def d q_def)
qed

lemma setHours_getHours:
  "setHours Z (TimeValue t) (plus_duration (getHours Z (TimeValue t)) (Whole n))
     = TimeClip (UTC Z (LocalTime Z t + n * msPerHour))"
proof -
  have "Day (LocalTime Z t) * msPerDay
          + ((HourFromTime (LocalTime Z t) + n) * msPerHour + LocalTime Z t mod msPerHour)
        = LocalTime Z t + n * msPerHour"
    using hour_decomposition [of "LocalTime Z t"] by (simp add: algebra_simps)
  then show ?thesis
    by (simp add: setHours_def getHours_def plus_duration_def Let_def)
qed

lemma setDate_getDate:
  "setDate f Z (TimeValue t) (plus_duration (getDate f Z (TimeValue t)) (Whole n))
     = TimeClip (UTC Z (LocalTime Z t + n * msPerDay))"
proof -
  have "(f (LocalTime Z t) + (Day (LocalTime Z t) - f (LocalTime Z t) + 1 + n) - 1) * msPerDay
          + TimeWithinDay (LocalTime Z t)
        = LocalTime Z t + n * msPerDay"
    by (simp add: Day_def TimeWithinDay_def algebra_simps)
  then show ?thesis
    by (simp add: setDate_def getDate_def plus_duration_def Let_def)
qed

lemma calculateEndDateTime_valid:
  assumes "calculateEndDateTime env st = Some (TimeValue e)"
  shows "\<exists>s n. parseDate env (form_startDate st @ ''T'' @ form_startTime st) = TimeValue s
     \<and> duration st = Whole n
     \<and> e = UTC (LocalTZA env)
             (LocalTime (LocalTZA env) s
              + n * (if durationType st = hours then msPerHour else msPerDay))"
proof (cases "parseDate env (form_startDate st @ ''T'' @ form_startTime st)")
  case InvalidDate
  with assms show ?thesis
    by (simp add: calculateEndDateTime_def setHours_def setDate_def getHours_def getDate_def
        plus_duration_def split: if_splits)
next
  case (TimeValue s)
  show ?thesis
  proof (cases "duration st")
    case (Whole n)
    with assms TimeValue show ?thesis
      by (auto simp: calculateEndDateTime_def setHours_getHours setDate_getDate TimeClip_def
          split: if_splits)
  qed (use assms TimeValue in \<open>simp_all add: calculateEndDateTime_def setHours_def setDate_def
        plus_duration_def Let_def split: if_splits option.splits\<close>)
qed

lemma createArguments_Inr:
  assumes "createArguments env st b u = Inr nb"
  shows "parseDate env (form_startDate st @ ''T'' @ form_startTime st) = TimeValue (startDate nb)
    \<and> (\<exists>n. duration st = Whole n
          \<and> endDate nb = UTC (LocalTZA env)
               (LocalTime (LocalTZA env) (startDate nb)
                + n * (if durationType st = hours then msPerHour else msPerDay)))
    \<and> totalAmount nb = calculateTotal env st
    \<and> status nb = (if form_bookingType st = instant then ''approved'' else ''pending'')
    \<and> bookingType nb = booking_type_text (form_bookingType st)
    \<and> userId nb = u_id u \<and> bikeId nb = bike_id b"
  using assms calculateEndDateTime_valid [of env st]
  by (auto simp: createArguments_def toISOString_def Let_def
      split: option.splits date.splits sum.splits)

lemma stored_fields [simp]:
  "startDate (stored n nb) = startDate nb"
  "endDate (stored n nb) = endDate nb"
  "totalAmount (stored n nb) = totalAmount nb"
  "status (stored n nb) = status nb"
  "bookingType (stored n nb) = bookingType nb"
  "userId (stored n nb) = userId nb"
  "bikeId (stored n nb) = bikeId nb"
  "createdAt (stored n nb) = n"
  by (simp_all add: stored_def new_booking.defs booking.defs)

lemma handleSubmit_cases:
  assumes "handleSubmit env st bookings = (st', bookings', tr)"
  shows "(bookings' = bookings \<and> navigations tr = [])
     \<or> (\<exists>b u nb. form_bike st = Some b \<and> form_user st = Some u
            \<and> createArguments env st b u = Inr nb \<and> create_accepted env
            \<and> bookings' = bookings @ [stored (serverNow env) nb]
            \<and> calls ''bookings'' ''create'' tr = 1
            \<and> navigations tr = [''/my-rentals''])"
  using assms
  by (auto simp: handleSubmit_def db_create_def navigations_def calls_def bookingFailed_def
      split: option.splits sum.splits if_splits)

lemma sample_form_fields:
  "form_bike sample_form = Some sample_offer"
  "form_user sample_form = Some sample_user"
  "form_bookingType sample_form = instant"
  "durationType sample_form = hours"
  "duration sample_form = Whole 2"
  by (simp_all add: sample_form_def)

lemma sample_total: "calculateTotal env0 sample_form = product env0 (Some 10) (number_of env0 (Whole 2))"
  by (simp add: calculateTotal_def sample_form_def sample_offer_def)

lemma sample_endDateTime:
  "calculateEndDateTime sample_env sample_form = Some (TimeValue 1714564800000)"
  by (simp add: calculateEndDateTime_def sample_env_def sample_form_def setHours_def
      getHours_def plus_duration_def LocalTime_def UTC_def Day_def HourFromTime_def
      msPerDay_def msPerHour_def TimeClip_def)

lemma sample_createArguments:
  "createArguments sample_env sample_form sample_offer sample_user =
     Inr (new_booking.truncate sample_created)"
  by (simp add: createArguments_def sample_endDateTime sample_total)
     (simp add: sample_env_def sample_form_def sample_offer_def sample_user_def
        sample_created_def sample_times_def sample_number_of_def toISOString_def Let_def
        calculateTotal_def booking_type_text_def new_booking.defs booking.defs)

lemma sample_submit:
  "handleSubmit sample_env sample_form [] =
     (sample_form, [sample_created],
      [Call ''bookings'' ''create'',
       Toast ''Booking submitted!'' ''Your bike is ready for pickup!'' Default,
       Navigate ''/my-rentals''])"
  by (simp add: handleSubmit_def sample_form_fields sample_createArguments db_create_def)
     (simp add: sample_form_def sample_env_def stored_def sample_created_def
        new_booking.defs booking.defs)

lemma created_append [simp]: "created xs (xs @ ys) = ys"
  by (simp add: created_def)

lemma created_same [simp]: "created xs xs = []"
  by (simp add: created_def)

text \<open>
  The status of a created booking follows the booking type: \<open>approved\<close> for an instant
  booking, \<open>pending\<close> for a pre-reservation.
\<close>

lemma created_status_by_type:
  assumes "handleSubmit env st bookings = (st', bookings', tr)"
  shows "\<forall>r \<in> set (created bookings bookings').
            bookingType r = booking_type_text (form_bookingType st)
            \<and> (form_bookingType st = instant \<longrightarrow> status r = ''approved'')
            \<and> (form_bookingType st = pre_reservation \<longrightarrow> status r = ''pending'')"
  using handleSubmit_cases [OF assms]
  by (auto dest!: createArguments_Inr)

lemma west_default_form:
  "defaultStartEffect sample_west_env 1714611600000 sample_form
     = sample_form\<lparr>form_startDate := ''2024-05-02'', form_startTime := ''20:00''\<rparr>"
  by (simp add: defaultStartEffect_def sample_west_env_def sample_form_def)

lemma west_end:
  "calculateEndDateTime sample_west_env
     (sample_form\<lparr>form_startDate := ''2024-05-02'', form_startTime := ''20:00''\<rparr>)
     = Some (TimeValue 1714705200000)"
  by (simp add: calculateEndDateTime_def sample_west_env_def sample_form_def setHours_def
      getHours_def plus_duration_def LocalTime_def UTC_def Day_def HourFromTime_def
      msPerDay_def msPerHour_def TimeClip_def)

text \<open>
  C2.  The created booking of an instant submission is approved, but its start is not
  the current time.  The effect on the booking type fills the start date from the UTC
  text of the clock and the start time from its local text, and the form is then read as
  local time.  Five hours west of UTC, at 20:00 on 1 May (01:00 on 2 May in UTC), the
  defaults are 2 May and 20:00: an instant booking submitted with them is approved and
  starts 24 hours after the moment it was made.
\<close>

theorem instant_default_start_a_day_late:
  "form_startDate (defaultStartEffect sample_west_env 1714611600000 sample_form)
     = ''2024-05-02''
   \<and> form_startTime (defaultStartEffect sample_west_env 1714611600000 sample_form)
     = ''20:00''
   \<and> parseDate sample_west_env ''2024-05-01T20:00'' = TimeValue 1714611600000
   \<and> map status
        (fst (snd (handleSubmit sample_west_env
           (defaultStartEffect sample_west_env 1714611600000 sample_form) [])))
     = [''approved'']
   \<and> map startDate
        (fst (snd (handleSubmit sample_west_env
           (defaultStartEffect sample_west_env 1714611600000 sample_form) [])))
     = [1714611600000 + msPerDay]"
proof -
  have f: "form_bike (sample_form\<lparr>form_startDate := ''2024-05-02'', form_startTime := ''20:00''\<rparr>)
        = Some sample_offer"
    "form_user (sample_form\<lparr>form_startDate := ''2024-05-02'', form_startTime := ''20:00''\<rparr>)
        = Some sample_user"
    by (simp_all add: sample_form_def)
  have a: "\<exists>nb. createArguments sample_west_env
        (sample_form\<lparr>form_startDate := ''2024-05-02'', form_startTime := ''20:00''\<rparr>)
        sample_offer sample_user = Inr nb
      \<and> status nb = ''approved'' \<and> startDate nb = 1714698000000"
    by (simp add: createArguments_def west_end)
       (simp add: sample_west_env_def sample_form_def toISOString_def)
  then obtain nb where nb: "createArguments sample_west_env
        (sample_form\<lparr>form_startDate := ''2024-05-02'', form_startTime := ''20:00''\<rparr>)
        sample_offer sample_user = Inr nb"
      and s: "status nb = ''approved''" "startDate nb = 1714698000000"
    by blast
  have c: "create_accepted sample_west_env"
    by (simp add: sample_west_env_def)
  have "fst (snd (handleSubmit sample_west_env
           (sample_form\<lparr>form_startDate := ''2024-05-02'', form_startTime := ''20:00''\<rparr>) []))
      = [stored (serverNow sample_west_env) nb]"
    by (simp add: handleSubmit_def f nb db_create_def c)
  with s show ?thesis
    by (simp add: west_default_form msPerDay_def) (simp add: sample_west_env_def)
qed

text \<open>
  C3.  With a bike loaded, \<open>calculateTotal\<close> is the product of the rate and the duration,
  the rate being the bike's hourly rate for the duration type \<open>hours\<close> and its daily
  rate for \<open>days\<close>, and the product being the one of JavaScript numbers (\<open>product\<close>: the
  rounded double product, NaN when the duration is).  The summary shows this number
  (through \<^verbatim>\<open>toFixed(2)\<close>), and it is the \<open>totalAmount\<close> of every booking the submission
  creates.
\<close>

theorem total_is_rate_times_duration:
  assumes "form_bike st = Some b"
    and "handleSubmit env st bookings = (st', bookings', tr)"
  shows "calculateTotal env st
           = product env (if durationType st = hours then hourlyRate b else dailyRate b)
               (number_of env (duration st))
     \<and> summaryTotal toFixed env st
           = ''$'' @ toFixed (product env (if durationType st = hours then hourlyRate b
                                         else dailyRate b)
                               (number_of env (duration st))) 2
     \<and> (\<forall>r \<in> set (created bookings bookings').
           totalAmount r
             = product env (if durationType st = hours then hourlyRate b else dailyRate b)
                 (number_of env (duration st)))"
proof -
  have total: "calculateTotal env st
      = product env (if durationType st = hours then hourlyRate b else dailyRate b)
          (number_of env (duration st))"
    using assms(1) by (simp add: calculateTotal_def)
  have "\<forall>r \<in> set (created bookings bookings'). totalAmount r = calculateTotal env st"
    using handleSubmit_cases [OF assms(2)]
    by (auto dest!: createArguments_Inr)
  with total show ?thesis
    by (simp add: summaryTotal_def)
qed

theorem total_is_rate_times_duration_witness:
  "calculateTotal sample_env sample_form = Some (10 * 2)
   \<and> map totalAmount (created [] (fst (snd (handleSubmit sample_env sample_form []))))
       = [Some (10 * 2)]
   \<and> calculateTotal sample_env (sample_form\<lparr>durationType := days, duration := Whole 3\<rparr>)
       = Some (50 * 3)
   \<and> calculateTotal sample_env (sample_form\<lparr>duration := NaN\<rparr>) = None"
proof -
  have b: "form_bike sample_form = Some sample_offer"
    by (simp add: sample_form_def)
  have r: "hourlyRate sample_offer = Some 10" "dailyRate sample_offer = Some 50"
    by (simp_all add: sample_offer_def)
  have e: "product sample_env = sample_times" "number_of sample_env = sample_number_of"
    by (simp_all add: sample_env_def)
  have c: "created [] [sample_created] = [sample_created]"
    by (simp add: created_def)
  have d: "calculateTotal sample_env (sample_form\<lparr>durationType := days, duration := Whole 3\<rparr>)
        = Some (50 * 3)"
    "calculateTotal sample_env (sample_form\<lparr>duration := NaN\<rparr>) = None"
    by (simp_all add: calculateTotal_def sample_form_def sample_offer_def sample_env_def
        sample_times_def sample_number_of_def)
  from total_is_rate_times_duration [OF b sample_submit] r c d e
  show ?thesis
    by (simp add: sample_submit sample_form_fields sample_times_def sample_number_of_def)
qed





lemma createArguments_without_outcome:
  "createArguments (env\<lparr>create_accepted := x\<rparr>) st b u = createArguments env st b u"
proof -
  have "calculateEndDateTime (env\<lparr>create_accepted := x\<rparr>) st = calculateEndDateTime env st"
    by (simp add: calculateEndDateTime_def Let_def cong: if_cong)
  moreover have "calculateTotal (env\<lparr>create_accepted := x\<rparr>) st = calculateTotal env st"
    by (simp add: calculateTotal_def split: option.splits)
  ultimately show ?thesis
    by (simp add: createArguments_def split: option.splits sum.splits)
qed

text \<open>
  C7.  When the \<^verbatim>\<open>bookings.create\<close> call of a submission is rejected, the handler
  catches it: the collection holds no new booking, the form state is as before (with
  \<open>submitting\<close> reset), the call was made once and is not repeated, the error is logged
  once, one destructive "Booking failed" toast is shown, and there is no navigation.
\<close>

theorem create_failure_is_caught:
  assumes "form_bike st = Some b" and "form_user st = Some u"
    and "createArguments env st b u = Inr nb"
    and "\<not> create_accepted env"
    and "handleSubmit env st bookings = (st', bookings', tr)"
  shows "bookings' = bookings
     \<and> st' = st\<lparr>submitting := False\<rparr>
     \<and> tr = [Call ''bookings'' ''create'',
             ConsoleError ''Error creating booking:'',
             Toast ''Booking failed''
               ''There was an error processing your booking. Please try again.'' Destructive]
     \<and> calls ''bookings'' ''create'' tr = 1
     \<and> console_errors tr = 1
     \<and> length (toasts tr) = 1
     \<and> navigations tr = []"
  using assms
  by (auto simp: handleSubmit_def db_create_def bookingFailed_def calls_def console_errors_def
      toasts_def navigations_def)

theorem create_failure_is_caught_witness:
  "handleSubmit (sample_env\<lparr>create_accepted := False\<rparr>) sample_form []
     = (sample_form, [],
        [Call ''bookings'' ''create'',
         ConsoleError ''Error creating booking:'',
         Toast ''Booking failed''
           ''There was an error processing your booking. Please try again.'' Destructive])"
proof -
  have a: "createArguments (sample_env\<lparr>create_accepted := False\<rparr>) sample_form sample_offer
      sample_user = Inr (new_booking.truncate sample_created)"
    by (simp add: createArguments_without_outcome sample_createArguments)
  have n: "\<not> create_accepted (sample_env\<lparr>create_accepted := False\<rparr>)"
    by simp
  obtain st' bs' tr where run:
    "handleSubmit (sample_env\<lparr>create_accepted := False\<rparr>) sample_form [] = (st', bs', tr)"
    by (metis prod_cases3)
  have s: "sample_form\<lparr>submitting := False\<rparr> = sample_form"
    by (simp add: sample_form_def)
  from create_failure_is_caught [OF sample_form_fields(1) sample_form_fields(2) a n run] run s
  show ?thesis by simp
qed

section \<open>Status updates\<close>

lemma overwrite_delivery:
  "overwrite (statusUpdateData env delivery st) b =
     b\<lparr>updatedAt := Some (now_updated env),
       deliveryStatus := Some (deliveryStatusInput st),
       deliveredAt := (if deliveryStatusInput st = ''delivered'' then Some (now_stamp env)
                       else deliveredAt b),
       bikeNumber := (if bikeNumberInput st \<noteq> [] then Some (bikeNumberInput st)
                      else bikeNumber b)\<rparr>"
  by (simp add: overwrite_def statusUpdateData_def Let_def)

lemma overwrite_return:
  "overwrite (statusUpdateData env return st) b =
     b\<lparr>updatedAt := Some (now_updated env),
       returnStatus := Some (returnStatusInput st),
       returnedAt := (if returnStatusInput st = ''returned'' then Some (now_stamp env)
                      else returnedAt b),
       status := (if returnStatusInput st = ''returned'' then ''completed'' else status b)\<rparr>"
  by (simp add: overwrite_def statusUpdateData_def Let_def)

lemma overwrite_action:
  "overwrite \<lparr>upd_updatedAt = Some t, upd_status = Some s,
       upd_deliveryStatus = None, upd_deliveredAt = None, upd_bikeNumber = None,
       upd_returnStatus = None, upd_returnedAt = None\<rparr> b
     = b\<lparr>status := s, updatedAt := Some t\<rparr>"
  by (simp add: overwrite_def)

lemma handleStatusUpdate_store:
  "selectedBooking st = Some sel \<Longrightarrow>
   fst (snd (handleStatusUpdate env ty st bookings bikes))
     = (if update_accepted env
        then map (\<lambda>b. if booking_id b = booking_id sel
                       then overwrite (statusUpdateData env ty st) b else b) bookings
        else bookings)"
  by (simp add: handleStatusUpdate_def db_update_def Let_def)

lemma handleBookingAction_store:
  "fst (snd (handleBookingAction env bookingId a st bookings bikes))
     = (if update_accepted env
        then map (\<lambda>b. if booking_id b = bookingId
                       then b\<lparr>status := (if a = approve then ''approved'' else ''rejected''),
                              updatedAt := Some (now_updated env)\<rparr>
                       else b) bookings
        else bookings)"
  by (simp add: handleBookingAction_def db_update_def Let_def overwrite_action)

text \<open>
  A status update is not confined to its own status field.  Marking an approved booking
  as returned makes its approval status \<open>completed\<close>, and a delivery update made while
  the bike-number field is filled writes the bike number.
\<close>

theorem status_update_counterexample:
  "status sample_booking = ''approved''
   \<and> map status
        (fst (snd (handleStatusUpdate sample_management_env return sample_management
                     [sample_booking] [sample_bike]))) = [''completed'']
   \<and> bikeNumber sample_booking = None
   \<and> map bikeNumber
        (fst (snd (handleStatusUpdate sample_management_env delivery sample_management
                     [sample_booking] [sample_bike]))) = [Some ''BK001'']"
proof -
  have s: "selectedBooking sample_management = Some sample_selected"
    by (simp add: sample_management_def)
  show ?thesis
    by (simp add: handleStatusUpdate_store [OF s] overwrite_delivery overwrite_return)
       (simp add: sample_management_env_def sample_management_def sample_selected_def
          sample_booking_def booking.defs)
qed

text \<open>
  C5, amended.  An accepted update rewrites the selected booking only, and in it: a
  delivery update writes \<open>deliveryStatus\<close> and \<open>updatedAt\<close>, \<open>deliveredAt\<close> when the
  value is \<open>delivered\<close>, and \<open>bikeNumber\<close> when the bike-number input is not empty; a
  return update writes \<open>returnStatus\<close> and \<open>updatedAt\<close>, and when the value is
  \<open>returned\<close> also \<open>returnedAt\<close> and the approval status, which becomes
  \<open>completed\<close>; approving or rejecting writes \<open>status\<close> and \<open>updatedAt\<close>.  Every
  other field keeps its value, so the approval status is untouched by a delivery update
  and by a return update with a value other than \<open>returned\<close>.
\<close>

theorem status_updates_frame:
  assumes "selectedBooking st = Some sel" and "update_accepted env"
  shows "fst (snd (handleStatusUpdate env delivery st bookings bikes))
           = map (\<lambda>b. if booking_id b = booking_id sel
                   then b\<lparr>updatedAt := Some (now_updated env),
                          deliveryStatus := Some (deliveryStatusInput st),
                          deliveredAt := (if deliveryStatusInput st = ''delivered''
                                          then Some (now_stamp env) else deliveredAt b),
                          bikeNumber := (if bikeNumberInput st \<noteq> []
                                         then Some (bikeNumberInput st) else bikeNumber b)\<rparr>
                   else b) bookings
     \<and> fst (snd (handleStatusUpdate env return st bookings bikes))
           = map (\<lambda>b. if booking_id b = booking_id sel
                   then b\<lparr>updatedAt := Some (now_updated env),
                          returnStatus := Some (returnStatusInput st),
                          returnedAt := (if returnStatusInput st = ''returned''
                                         then Some (now_stamp env) else returnedAt b),
                          status := (if returnStatusInput st = ''returned''
                                     then ''completed'' else status b)\<rparr>
                   else b) bookings
     \<and> fst (snd (handleBookingAction env bookingId a st bookings bikes))
           = map (\<lambda>b. if booking_id b = bookingId
                   then b\<lparr>status := (if a = approve then ''approved'' else ''rejected''),
                          updatedAt := Some (now_updated env)\<rparr>
                   else b) bookings
     \<and> (ty = delivery \<or> returnStatusInput st \<noteq> ''returned'' \<longrightarrow>
          map status (fst (snd (handleStatusUpdate env ty st bookings bikes)))
            = map status bookings)"
proof -
  have "ty = delivery \<or> returnStatusInput st \<noteq> ''returned'' \<Longrightarrow>
          map status (fst (snd (handleStatusUpdate env ty st bookings bikes)))
            = map status bookings"
    using assms
    by (cases ty) (auto simp: handleStatusUpdate_store overwrite_delivery overwrite_return)
  then show ?thesis
    using assms
    by (simp add: handleStatusUpdate_store handleBookingAction_store overwrite_delivery
        overwrite_return)
qed

theorem status_updates_frame_witness:
  "fst (snd (handleStatusUpdate sample_management_env delivery sample_management
               [sample_booking] [sample_bike]))
     = [sample_booking\<lparr>updatedAt := Some 1714600000000, deliveryStatus := Some ''delivered'',
          deliveredAt := Some 1714600000001, bikeNumber := Some ''BK001''\<rparr>]
   \<and> fst (snd (handleStatusUpdate sample_management_env return
               (sample_management\<lparr>returnStatusInput := ''overdue''\<rparr>)
               [sample_booking] [sample_bike]))
     = [sample_booking\<lparr>updatedAt := Some 1714600000000, returnStatus := Some ''overdue''\<rparr>]"
proof -
  have s: "selectedBooking sample_management = Some sample_selected"
    "selectedBooking (sample_management\<lparr>returnStatusInput := ''overdue''\<rparr>)
       = Some sample_selected"
    by (simp_all add: sample_management_def)
  have u: "update_accepted sample_management_env"
    by (simp add: sample_management_env_def)
  have i: "booking_id sample_selected = booking_id sample_booking"
    by (simp add: sample_selected_def booking.defs)
  from status_updates_frame [OF s(1) u, of "[sample_booking]" "[sample_bike]"]
    status_updates_frame [OF s(2) u, of "[sample_booking]" "[sample_bike]"] i
  show ?thesis
    by (simp add: sample_management_def sample_management_env_def)
qed

section \<open>Catalog filter\<close>

lemma set_insert_by [simp]: "set (insert_by cmp x ys) = insert x (set ys)"
  by (induction ys) auto

lemma set_array_sort [simp]: "set (array_sort cmp xs) = set xs"
  by (induction xs) auto

text \<open>
  A bike whose name does not contain the search term is still listed when its type or
  its description does: "mount" finds the City Cruiser, a bike of type Mountain.
\<close>

theorem name_filter_counterexample:
  "snd (filterBikes sample_toLowerCase (\<lambda>a b. 0) [sample_bike] ''mount'' ''all'' ''name'')
     = [sample_bike]
   \<and> \<not> str_includes (sample_toLowerCase (bike_name sample_bike)) (sample_toLowerCase ''mount'')
   \<and> str_includes (sample_toLowerCase (bike_type sample_bike)) (sample_toLowerCase ''mount'')"
  by code_simp

text \<open>
  C6, amended.  For a non-empty search term the filtered list holds exactly the loaded
  bikes for which the term is a case-insensitive substring of the name, of the type or of
  the description (and whose type is the selected one, if a type is selected).  A bike
  that matches in none of the three fields never appears.  This holds for whatever
  \<^verbatim>\<open>toLowerCase\<close> and \<^verbatim>\<open>localeCompare\<close> do.
\<close>

theorem filter_keeps_only_matching:
  assumes "searchTerm \<noteq> []"
  shows "(b \<in> set (snd (filterBikes toLowerCase localeCompare bikes searchTerm selectedType
                          sortBy)))
       = (b \<in> set bikes
          \<and> (str_includes (toLowerCase (bike_name b)) (toLowerCase searchTerm)
             \<or> str_includes (toLowerCase (bike_type b)) (toLowerCase searchTerm)
             \<or> str_includes (toLowerCase (description b)) (toLowerCase searchTerm))
          \<and> (selectedType = ''all''
             \<or> toLowerCase (bike_type b) = toLowerCase selectedType))"
  using assms
  by (auto simp: filterBikes_def Let_def matchesSearch_def)

theorem filter_keeps_only_matching_witness:
  "sample_bike \<in> set (snd (filterBikes sample_toLowerCase (\<lambda>a b. 0) [sample_bike]
                             ''CRUISER'' ''all'' ''name''))
   \<and> sample_bike \<notin> set (snd (filterBikes sample_toLowerCase (\<lambda>a b. 0) [sample_bike]
                               ''tandem'' ''all'' ''name''))"
proof -
  have n: "''CRUISER'' \<noteq> []" "''tandem'' \<noteq> []"
    by simp_all
  have m: "str_includes (sample_toLowerCase (bike_name sample_bike))
             (sample_toLowerCase ''CRUISER'')"
    "\<not> str_includes (sample_toLowerCase (bike_name sample_bike)) (sample_toLowerCase ''tandem'')"
    "\<not> str_includes (sample_toLowerCase (bike_type sample_bike)) (sample_toLowerCase ''tandem'')"
    "\<not> str_includes (sample_toLowerCase (description sample_bike))
         (sample_toLowerCase ''tandem'')"
    by code_simp+
  from filter_keeps_only_matching [OF n(1), of sample_bike sample_toLowerCase "\<lambda>a b. 0"
      "[sample_bike]" "''all''" "''name''"]
    filter_keeps_only_matching [OF n(2), of sample_bike sample_toLowerCase "\<lambda>a b. 0"
      "[sample_bike]" "''all''" "''name''"]
    m
  show ?thesis by simp
qed

section \<open>Bookings of deleted bikes\<close>

lemma loadBike_missing:
  assumes "\<forall>k \<in> set bikes. bike_id k \<noteq> bikeId b"
  shows "bike (fst (loadBike lookup_ok bikes b)) = (if lookup_ok b then Null else Undefined)"
proof -
  from assms have "filter (\<lambda>k. bike_id k = bikeId b) bikes = []"
    by (simp add: filter_empty_conv)
  then show ?thesis
    by (simp add: loadBike_def db_list_def booking.defs booking_with_bike.defs)
qed

lemma set_orderBy [simp]: "set (orderBy_createdAt_desc bs) = set bs"
  by (simp add: orderBy_createdAt_desc_def)

lemma MyRentals_loaded:
  "rentals (fst (MyRentals_loadBookings True lookup_ok usr st bookings bikes))
     = map (\<lambda>b. fst (loadBike lookup_ok bikes b))
         (orderBy_createdAt_desc (filter (\<lambda>b. userId b = u_id usr) bookings))"
  by (simp add: MyRentals_loadBookings_def db_list_def Let_def comp_def)

lemma BookingManagement_loaded:
  "list_accepted env \<Longrightarrow>
   managed (fst (BookingManagement_loadBookings env st bookings bikes))
     = map (\<lambda>b. fst (loadBike (lookup_accepted env) bikes b)) (orderBy_createdAt_desc bookings)"
  by (simp add: BookingManagement_loadBookings_def db_list_def Let_def comp_def)

text \<open>
  C8.  For a booking whose \<open>bikeId\<close> is the id of no bike, the lookup gives \<open>null\<close>
  (and when the lookup call itself fails the property stays absent), and the card of the
  booking is titled "Unknown Bike".  Both pages load such a booking into their list and
  render the list as cards; neither fails.
\<close>

theorem missing_bike_renders_unknown:
  assumes "b \<in> set bookings" and "\<forall>k \<in> set bikes. bike_id k \<noteq> bikeId b"
    and "list_accepted env"
  shows "(lookup_ok b \<longrightarrow> bike (fst (loadBike lookup_ok bikes b)) = Null)
     \<and> cardTitle (fst (loadBike lookup_ok bikes b)) = ''Unknown Bike''
     \<and> (userId b = u_id usr \<longrightarrow>
          fst (loadBike lookup_ok bikes b)
            \<in> set (rentals (fst (MyRentals_loadBookings True lookup_ok usr st bookings bikes)))
          \<and> MyRentals_BookingsList
              (rentals (fst (MyRentals_loadBookings True lookup_ok usr st bookings bikes)))
            = Cards (map cardTitle
                (rentals (fst (MyRentals_loadBookings True lookup_ok usr st bookings bikes)))))
     \<and> fst (loadBike (lookup_accepted env) bikes b)
          \<in> set (managed (fst (BookingManagement_loadBookings env mst bookings bikes)))
     \<and> BookingManagement_BookingsList
          (managed (fst (BookingManagement_loadBookings env mst bookings bikes)))
        = Cards (map cardTitle
            (managed (fst (BookingManagement_loadBookings env mst bookings bikes))))
     \<and> cardTitle (fst (loadBike (lookup_accepted env) bikes b)) = ''Unknown Bike''"
proof -
  have title: "cardTitle (fst (loadBike ok bikes b)) = ''Unknown Bike''" for ok
    using loadBike_missing [OF assms(2), of ok] by (simp add: cardTitle_def)
  have null: "lookup_ok b \<longrightarrow> bike (fst (loadBike lookup_ok bikes b)) = Null"
    using loadBike_missing [OF assms(2), of lookup_ok] by simp
  have mine: "userId b = u_id usr \<Longrightarrow>
      fst (loadBike lookup_ok bikes b)
        \<in> set (rentals (fst (MyRentals_loadBookings True lookup_ok usr st bookings bikes)))"
    using assms(1) by (simp add: MyRentals_loaded)
  have mine_view: "userId b = u_id usr \<Longrightarrow>
      MyRentals_BookingsList
          (rentals (fst (MyRentals_loadBookings True lookup_ok usr st bookings bikes)))
        = Cards (map cardTitle
            (rentals (fst (MyRentals_loadBookings True lookup_ok usr st bookings bikes))))"
    using mine by (auto simp: MyRentals_BookingsList_def)
  have all: "fst (loadBike (lookup_accepted env) bikes b)
      \<in> set (managed (fst (BookingManagement_loadBookings env mst bookings bikes)))"
    using assms(1,3) by (simp add: BookingManagement_loaded)
  then have all_view: "BookingManagement_BookingsList
          (managed (fst (BookingManagement_loadBookings env mst bookings bikes)))
        = Cards (map cardTitle
            (managed (fst (BookingManagement_loadBookings env mst bookings bikes))))"
    by (auto simp: BookingManagement_BookingsList_def)
  from title null mine mine_view all all_view show ?thesis
    by simp
qed

theorem missing_bike_renders_unknown_witness:
  "bike (fst (loadBike (\<lambda>b. True) [] sample_booking)) = Null
   \<and> MyRentals_BookingsList
        (rentals (fst (MyRentals_loadBookings True (\<lambda>b. True) sample_user
           \<lparr>rentals = [], rentals_loading = True\<rparr> [sample_booking] [])))
      = Cards [''Unknown Bike'']
   \<and> BookingManagement_BookingsList
        (managed (fst (BookingManagement_loadBookings sample_management_env sample_management
           [sample_booking] [])))
      = Cards [''Unknown Bike'']"
proof -
  have a: "sample_booking \<in> set [sample_booking]"
    by simp
  have n: "\<forall>k \<in> set ([] :: real bike list). bike_id k \<noteq> bikeId sample_booking"
    by simp
  have l: "list_accepted sample_management_env"
    by (simp add: sample_management_env_def)
  have u: "userId sample_booking = u_id sample_user"
    by (simp add: sample_booking_def sample_user_def)
  have r: "rentals (fst (MyRentals_loadBookings True (\<lambda>b. True) sample_user
           \<lparr>rentals = [], rentals_loading = True\<rparr> [sample_booking] []))
      = [fst (loadBike (\<lambda>b. True) [] sample_booking)]"
    by (simp add: MyRentals_loaded u orderBy_createdAt_desc_def)
  have m: "managed (fst (BookingManagement_loadBookings sample_management_env sample_management
           [sample_booking] []))
      = [fst (loadBike (\<lambda>b. True) [] sample_booking)]"
    by (simp add: BookingManagement_loaded l orderBy_createdAt_desc_def)
       (simp add: sample_management_env_def)
  from missing_bike_renders_unknown [OF a n l, of "\<lambda>b. True" sample_user
      "\<lparr>rentals = [], rentals_loading = True\<rparr>" sample_management] u r m
  show ?thesis
    by simp
qed

section \<open>Dashboard revenue\<close>

lemma foldl_sum:
  fixes a :: real
  shows "foldl (\<lambda>sum b. sum + f b) a xs = a + sum_list (map f xs)"
  by (induction xs arbitrary: a) simp_all

lemma sum_filter_le:
  fixes f :: "'a \<Rightarrow> real"
  assumes "\<forall>x \<in> set xs. Q x \<and> \<not> P x \<longrightarrow> 0 \<le> f x"
  shows "sum_list (map f (filter (\<lambda>x. P x \<and> Q x) xs)) \<le> sum_list (map f (filter Q xs))"
  using assms by (induction xs) auto

lemma loadDashboardStats_revenue:
  assumes "bikes_accepted env" and "bookings_accepted env"
  shows "totalRevenue (stats (fst (loadDashboardStats env st bikes bookings)))
           = sum_list (map totalAmount
               (filter (\<lambda>b. status b = ''approved'' \<or> status b = ''completed'') bookings))"
    and "monthlyRevenue (stats (fst (loadDashboardStats env st bikes bookings)))
           = sum_list (map totalAmount
               (filter (\<lambda>b. (getMonth env (createdAt b) = currentMonth env
                             \<and> getFullYear env (createdAt b) = currentYear env)
                            \<and> (status b = ''approved'' \<or> status b = ''completed'')) bookings))"
  using assms
  by (simp_all add: loadDashboardStats_def db_list_def Let_def foldl_sum)

text \<open>
  The monthly revenue can exceed the total: a booking of this month worth 20 and an older
  completed booking with the amount -5 (a bike entered with a negative rate) give 20 for
  the month and 15 in total.
\<close>

theorem monthly_revenue_counterexample:
  "monthlyRevenue (stats (fst (loadDashboardStats sample_dashboard_env sample_dashboard
       [sample_bike] [sample_booking, sample_refund]))) = 20
   \<and> totalRevenue (stats (fst (loadDashboardStats sample_dashboard_env sample_dashboard
       [sample_bike] [sample_booking, sample_refund]))) = 15
   \<and> \<not> monthlyRevenue (stats (fst (loadDashboardStats sample_dashboard_env sample_dashboard
       [sample_bike] [sample_booking, sample_refund])))
     \<le> totalRevenue (stats (fst (loadDashboardStats sample_dashboard_env sample_dashboard
       [sample_bike] [sample_booking, sample_refund])))"
  by (simp add: loadDashboardStats_def db_list_def sample_dashboard_env_def
      sample_dashboard_def sample_refund_def sample_booking_def)

text \<open>
  C10, amended.  The total revenue is the sum of \<open>totalAmount\<close> over the approved and
  completed bookings, the monthly revenue is the sum over those of them created in the
  current month and year, and the monthly revenue is at most the total whenever no
  approved or completed booking from outside the current month has a negative amount.
\<close>

theorem monthly_revenue_at_most_total:
  assumes "bikes_accepted env" and "bookings_accepted env"
    and "\<forall>b \<in> set bookings.
           (status b = ''approved'' \<or> status b = ''completed'')
           \<and> \<not> (getMonth env (createdAt b) = currentMonth env
                \<and> getFullYear env (createdAt b) = currentYear env)
           \<longrightarrow> 0 \<le> totalAmount b"
  shows "monthlyRevenue (stats (fst (loadDashboardStats env st bikes bookings)))
           \<le> totalRevenue (stats (fst (loadDashboardStats env st bikes bookings)))
     \<and> totalRevenue (stats (fst (loadDashboardStats env st bikes bookings)))
           = sum_list (map totalAmount
               (filter (\<lambda>b. status b = ''approved'' \<or> status b = ''completed'') bookings))
     \<and> monthlyRevenue (stats (fst (loadDashboardStats env st bikes bookings)))
           = sum_list (map totalAmount
               (filter (\<lambda>b. (getMonth env (createdAt b) = currentMonth env
                             \<and> getFullYear env (createdAt b) = currentYear env)
                            \<and> (status b = ''approved'' \<or> status b = ''completed'')) bookings))"
  using sum_filter_le [OF assms(3)]
  by (simp add: loadDashboardStats_revenue [OF assms(1,2)])

theorem monthly_revenue_at_most_total_witness:
  "monthlyRevenue (stats (fst (loadDashboardStats sample_dashboard_env sample_dashboard
       [sample_bike] [sample_booking, sample_refund\<lparr>totalAmount := 5\<rparr>]))) = 20
   \<and> totalRevenue (stats (fst (loadDashboardStats sample_dashboard_env sample_dashboard
       [sample_bike] [sample_booking, sample_refund\<lparr>totalAmount := 5\<rparr>]))) = 25"
proof -
  have a: "bikes_accepted sample_dashboard_env" "bookings_accepted sample_dashboard_env"
    by (simp_all add: sample_dashboard_env_def)
  have p: "\<forall>b \<in> set [sample_booking, sample_refund\<lparr>totalAmount := 5\<rparr>].
           (status b = ''approved'' \<or> status b = ''completed'')
           \<and> \<not> (getMonth sample_dashboard_env (createdAt b) = currentMonth sample_dashboard_env
                \<and> getFullYear sample_dashboard_env (createdAt b)
                    = currentYear sample_dashboard_env)
           \<longrightarrow> 0 \<le> totalAmount b"
    by (simp add: sample_booking_def sample_refund_def)
  from monthly_revenue_at_most_total [OF a p, of sample_dashboard "[sample_bike]"]
  show ?thesis
    by (simp add: sample_dashboard_env_def sample_refund_def sample_booking_def)
qed

end
